theory Spec2Isabelle
  imports Main "HOL-Library.AList"
begin

section \<open>JavaScript values, objects and truthiness\<close>

text \<open>
  The middlewares of \<^verbatim>\<open>src/middlewares/authMiddleware.js\<close> read and write properties of
  plain JavaScript objects (\<^verbatim>\<open>req.session\<close>, \<^verbatim>\<open>res.locals\<close>) and branch on the truthiness
  of what they read. A value is one of the primitive kinds or an object; an object is the
  list of its own properties in insertion order. Numbers are the integers together with
  \<^verbatim>\<open>NaN\<close>, which is all that truthiness distinguishes.
\<close>

datatype jsval =
    JUndefined
  | JNull
  | JBool bool
  | JNum int
  | JNaN
  | JStr string
  | JObj "(string \<times> jsval) list"

type_synonym props = "(string \<times> jsval) list"

text \<open>\<^verbatim>\<open>!v\<close> is true exactly for \<^verbatim>\<open>undefined\<close>, \<^verbatim>\<open>null\<close>, \<^verbatim>\<open>false\<close>, \<^verbatim>\<open>0\<close>, \<^verbatim>\<open>NaN\<close> and \<^verbatim>\<open>""\<close>.\<close>

fun truthy :: "jsval \<Rightarrow> bool" where
  "truthy JUndefined = False"
| "truthy JNull = False"
| "truthy (JBool b) = b"
| "truthy (JNum n) = (n \<noteq> 0)"
| "truthy JNaN = False"
| "truthy (JStr s) = (s \<noteq> [])"
| "truthy (JObj ps) = True"

text \<open>Reading a property that the object does not have yields \<^verbatim>\<open>undefined\<close>.\<close>

definition prop_get :: "props \<Rightarrow> string \<Rightarrow> jsval" where
  "prop_get ps k = (case map_of ps k of None \<Rightarrow> JUndefined | Some v \<Rightarrow> v)"

text \<open>Assignment \<^verbatim>\<open>o.k = v\<close> overwrites the property in place or appends a new one.\<close>

definition prop_set :: "string \<Rightarrow> jsval \<Rightarrow> props \<Rightarrow> props" where
  "prop_set k v ps = AList.update k v ps"

datatype js_error = JsError string string

section \<open>The request context and its observable effects\<close>

text \<open>
  A middleware sees \<^verbatim>\<open>req.session\<close> and \<^verbatim>\<open>res.locals\<close> and acts on the outside through
  \<^verbatim>\<open>res.redirect\<close>, \<^verbatim>\<open>next\<close>, \<^verbatim>\<open>User.findById\<close> and \<^verbatim>\<open>console.error\<close>. The world threads
  the two objects and the trace of those calls, oldest first. The session object is always
  there: the documented parameter is a request that holds the session, which
  \<^verbatim>\<open>app.js\<close> configures ahead of these middlewares.
\<close>

datatype effect =
    Redirect string
  | Next
  | FindById jsval
  | ConsoleError string js_error

record world =
  session :: props
  locals :: props
  trace :: "effect list"

definition emit :: "effect \<Rightarrow> world \<Rightarrow> world" where
  "emit e w = w\<lparr>trace := trace w @ [e]\<rparr>"

definition res_redirect :: "string \<Rightarrow> world \<Rightarrow> world" where
  "res_redirect url w = emit (Redirect url) w"

definition call_next :: "world \<Rightarrow> world" where
  "call_next w = emit Next w"

definition session_set :: "string \<Rightarrow> jsval \<Rightarrow> world \<Rightarrow> world" where
  "session_set k v w = w\<lparr>session := prop_set k v (session w)\<rparr>"

definition locals_set :: "string \<Rightarrow> jsval \<Rightarrow> world \<Rightarrow> world" where
  "locals_set k v w = w\<lparr>locals := prop_set k v (locals w)\<rparr>"

text \<open>How a block of statements ends: it falls through, returns, or throws.\<close>

datatype completion = Normal | Return | Throw js_error

section \<open>The Authentication Gate\<close>

text \<open>
  \<^verbatim>\<open>
  export function exigirAutenticacao(req, res, next) {
      if (!req.session.userId) {
          return res.redirect("/login");
      }
      next();
  }
  \<close>
\<close>

definition exigirAutenticacao :: "world \<Rightarrow> completion \<times> world" where
  "exigirAutenticacao w =
     (if \<not> truthy (prop_get (session w) ''userId'')
      then (Return, res_redirect ''/login'' w)
      else (Normal, call_next w))"

section \<open>The View-Context Enricher\<close>

text \<open>
  A stored user, as \<^verbatim>\<open>src/models/User.js\<close> declares it: the four schema paths, the two
  timestamps and the identifier that the store adds. The schema spells its option
  \<^verbatim>\<open>require\<close>, which the store does not know, so no path is mandatory and each may read
  \<^verbatim>\<open>undefined\<close>. Whatever else the stored document holds is in \<open>extra\<close>.
\<close>

datatype objectid = ObjectId string

fun toString :: "objectid \<Rightarrow> string" where
  "toString (ObjectId hex) = hex"

record user_doc =
  doc_id :: objectid
  email :: jsval
  displayName :: jsval
  passwordHash :: jsval
  role :: jsval
  createdAt :: jsval
  updatedAt :: jsval
  extra :: props

text \<open>
  \<^verbatim>\<open>await User.findById(ref)\<close> either throws, or yields \<^verbatim>\<open>null\<close> (\<open>None\<close>), or yields a
  document, which is an object and so truthy. The store is a parameter of the model.
\<close>

type_synonym store = "jsval \<Rightarrow> js_error + user_doc option"

text \<open>Sequencing of statements: what follows runs only after a normal completion.\<close>

definition and_then :: "completion \<times> 'w \<Rightarrow> ('w \<Rightarrow> completion \<times> 'w) \<Rightarrow> completion \<times> 'w" where
  "and_then r f = (case r of (Normal, w) \<Rightarrow> f w | (c, w) \<Rightarrow> (c, w))"

text \<open>\<^verbatim>\<open>try { body } catch (error) { handler }\<close>: only a throw of the body reaches the handler.\<close>

definition try_catch ::
  "('w \<Rightarrow> completion \<times> 'w) \<Rightarrow> (js_error \<Rightarrow> 'w \<Rightarrow> completion \<times> 'w) \<Rightarrow>
   'w \<Rightarrow> completion \<times> 'w" where
  "try_catch body handler w =
     (case body w of (Throw error, w') \<Rightarrow> handler error w' | (c, w') \<Rightarrow> (c, w'))"

text \<open>
  \<^verbatim>\<open>
  const user = await User.findById(req.session.userId);
  if (!user) {
      req.session.userId = undefined;
      req.session.role = undefined;
      return next();
  }
  res.locals.currentUser = {
      id: user._id.toString(),
      displayName: user.displayName,
      email: user.email,
      role: user.role,
  };
  \<close>
\<close>

definition try_block :: "store \<Rightarrow> world \<Rightarrow> completion \<times> world" where
  "try_block db w =
     (let ref = prop_get (session w) ''userId'';
          w1 = emit (FindById ref) w
      in case db ref of
           Inl error \<Rightarrow> (Throw error, w1)
         | Inr None \<Rightarrow>
             (Return,
              call_next (session_set ''role'' JUndefined (session_set ''userId'' JUndefined w1)))
         | Inr (Some user) \<Rightarrow>
             (Normal,
              locals_set ''currentUser''
                (JObj [(''id'', JStr (toString (doc_id user))),
                       (''displayName'', displayName user),
                       (''email'', email user),
                       (''role'', role user)]) w1))"

text \<open>
  \<^verbatim>\<open>
  console.error("Erro ao carregar utilizador da sess\<dots>o:", error);
  res.locals.currentUser = null;
  \<close>
  The accented letter of the message is written as its two bytes.
\<close>

definition erro_ao_carregar :: string where
  "erro_ao_carregar = ''Erro ao carregar utilizador da sess'' @ [CHR 0xC3, CHR 0xA3] @ ''o:''"

definition catch_block :: "js_error \<Rightarrow> world \<Rightarrow> completion \<times> world" where
  "catch_block error w =
     (Normal, locals_set ''currentUser'' JNull (emit (ConsoleError erro_ao_carregar error) w))"

text \<open>
  \<^verbatim>\<open>
  export async function anexarUtilizadorAsViews(req, res, next) {
      res.locals.currentUser = null;
      if (!req.session.userId) {
          return next();
      }
      try { ... } catch (error) { ... }
      next();
  }
  \<close>
  The completion returned is that of the function body: \<open>Throw\<close> would be a rejected
  promise, anything else a fulfilled one.
\<close>

definition anexarUtilizadorAsViews :: "store \<Rightarrow> world \<Rightarrow> completion \<times> world" where
  "anexarUtilizadorAsViews db w =
     and_then (Normal, locals_set ''currentUser'' JNull w) (\<lambda>w1.
       if \<not> truthy (prop_get (session w1) ''userId'')
       then (Return, call_next w1)
       else and_then (try_catch (try_block db) catch_block w1) (\<lambda>w2.
              (Normal, call_next w2)))"

text \<open>What a middleware run added to the trace, and what the views will see.\<close>

definition new_effects :: "world \<Rightarrow> world \<Rightarrow> effect list" where
  "new_effects w w' = drop (length (trace w)) (trace w')"

definition currentUser :: "world \<Rightarrow> jsval" where
  "currentUser w = prop_get (locals w) ''currentUser''"

text \<open>\<^verbatim>\<open>Object.keys\<close>: the names of an object's own properties; a primitive has none.\<close>

fun own_keys :: "jsval \<Rightarrow> string list" where
  "own_keys (JObj ps) = map fst ps"
| "own_keys v = []"

text \<open>The self-healing write of the Enricher, on the session object alone.\<close>

definition clear_reference :: "props \<Rightarrow> props" where
  "clear_reference s = prop_set ''role'' JUndefined (prop_set ''userId'' JUndefined s)"

section \<open>Process startup\<close>

text \<open>
  \<^verbatim>\<open>process.env\<close> maps names to strings; reading a name that is not set gives
  \<^verbatim>\<open>undefined\<close>. \<^verbatim>\<open>a || b\<close> is \<^verbatim>\<open>a\<close> when \<^verbatim>\<open>a\<close> is truthy and \<^verbatim>\<open>b\<close> otherwise.
\<close>

type_synonym env = "string \<Rightarrow> string option"

definition env_get :: "env \<Rightarrow> string \<Rightarrow> jsval" where
  "env_get env k = (case env k of None \<Rightarrow> JUndefined | Some s \<Rightarrow> JStr s)"

definition js_or :: "jsval \<Rightarrow> jsval \<Rightarrow> jsval" where
  "js_or a b = (if truthy a then a else b)"

text \<open>What startup does to the outside, oldest first.\<close>

datatype sys_effect =
    MongooseConnect jsval jsval
  | ConsoleLog string "js_error option"
  | ConsoleErrorSys string js_error
  | AppListen jsval
  | ProcessExit int

text \<open>The messages and the default database name, accented letters as their two bytes.\<close>

definition variavel_nao_existe :: string where
  "variavel_nao_existe =
     ''A Vari'' @ [CHR 0xC3, CHR 0xA1] @ ''vel de ambiente MONGO_DB n'' @ [CHR 0xC3, CHR 0xA3] @
     ''o existe.''"

definition ficha5_conspiracoes :: string where
  "ficha5_conspiracoes =
     ''ficha5_conspira'' @ [CHR 0xC3, CHR 0xA7, CHR 0xC3, CHR 0xB5] @ ''es''"

definition ligacao_feita :: string where
  "ligacao_feita =
     ''Liga'' @ [CHR 0xC3, CHR 0xA7, CHR 0xC3, CHR 0xA3] @ ''o ao mongo foi feita''"

definition erro_ao_ligar :: string where
  "erro_ao_ligar = ''Erro ao ligar '' @ [CHR 0xC3, CHR 0xA1] @ '' base de dados''"

text \<open>
  \<^verbatim>\<open>src/config/database.js\<close>, the helper that \<^verbatim>\<open>index.js\<close> imports:
  \<^verbatim>\<open>
  export async function connectToDataBase() {
      const uri = process.env.MONGODB_URL;
      if (!uri) {
          throw new Error("A Vari\<dots>vel de ambiente MONGO_DB n\<dots>o existe.");
      }
      const dbName = process.env.MONGODB_DB_NAME || "ficha5_conspira\<dots>es";
  }
  \<close>
  It computes the database name and stops there: this version opens no connection.
\<close>

definition connectToDataBase :: "env \<Rightarrow> sys_effect list \<Rightarrow> completion \<times> sys_effect list" where
  "connectToDataBase env t =
     (let uri = env_get env ''MONGODB_URL''
      in if \<not> truthy uri
         then (Throw (JsError ''Error'' variavel_nao_existe), t)
         else (let dbName = js_or (env_get env ''MONGODB_DB_NAME'') (JStr ficha5_conspiracoes)
               in (Normal, t)))"

text \<open>
  The other version of the helper (\<^verbatim>\<open>connectToDatabase\<close>, reading \<^verbatim>\<open>MONGODB_URI\<close>):
  \<^verbatim>\<open>
      try {
          await mongoose.connect(uri, { dbName });
          console.log("Liga\<dots>o ao mongo foi feita");
      } catch (error) {
          console.log("Erro ao ligar \<dots> base de dados", error);
          throw error;
      }
  \<close>
  \<^verbatim>\<open>mongoose.connect\<close> is a parameter: it fails with an error or succeeds.
\<close>

definition connectToDatabase ::
  "(jsval \<Rightarrow> jsval \<Rightarrow> js_error option) \<Rightarrow> env \<Rightarrow> sys_effect list \<Rightarrow> completion \<times> sys_effect list" where
  "connectToDatabase mongoose_connect env t =
     (let uri = env_get env ''MONGODB_URI''
      in if \<not> truthy uri
         then (Throw (JsError ''Error'' variavel_nao_existe), t)
         else (let dbName = js_or (env_get env ''MONGODB_DB_NAME'') (JStr ficha5_conspiracoes)
               in try_catch
                    (\<lambda>t. case mongoose_connect uri dbName of
                            Some error \<Rightarrow> (Throw error, t @ [MongooseConnect uri dbName])
                          | None \<Rightarrow>
                              (Normal, t @ [MongooseConnect uri dbName, ConsoleLog ligacao_feita None]))
                    (\<lambda>error t. (Throw error, t @ [ConsoleLog erro_ao_ligar (Some error)]))
                    t))"

text \<open>
  \<^verbatim>\<open>
  const PORT = process.env.PORT || 3000;

  async function startServer() {
      try {
          await connectToDataBase();
          app.listen(PORT, () => { console.log(`Servidor a correr na porta ${PORT}`); });
      } catch (error) {
          console.error("Erro Critico ao arrancar o servidor", error);
          process.exit(1);
      }
  }
  \<close>
  In \<^verbatim>\<open>index.js\<close> the import of \<^verbatim>\<open>app\<close> is commented out, so evaluating \<^verbatim>\<open>app\<close> throws a
  \<^verbatim>\<open>ReferenceError\<close> inside the \<^verbatim>\<open>try\<close>; the other version of the file imports it. Whether
  \<^verbatim>\<open>app\<close> is bound is a parameter. The callback of \<^verbatim>\<open>listen\<close> runs later, once the server
  is bound, and is not part of this routine's own steps.
\<close>

datatype app_binding = Unbound | ExpressApp

definition PORT :: "env \<Rightarrow> jsval" where
  "PORT env = js_or (env_get env ''PORT'') (JNum 3000)"

definition startServer :: "app_binding \<Rightarrow> env \<Rightarrow> sys_effect list \<Rightarrow> completion \<times> sys_effect list" where
  "startServer app env t =
     try_catch
       (\<lambda>t. and_then (connectToDataBase env t) (\<lambda>t1.
               case app of
                 Unbound \<Rightarrow> (Throw (JsError ''ReferenceError'' ''app is not defined''), t1)
               | ExpressApp \<Rightarrow> (Normal, t1 @ [AppListen (PORT env)])))
       (\<lambda>error t.
          (Normal, t @ [ConsoleErrorSys ''Erro Critico ao arrancar o servidor'' error,
                        ProcessExit 1]))
       t"

section \<open>Reading and writing properties\<close>

lemma prop_get_set_same: "prop_get (prop_set k v ps) k = v"
  by (simp add: prop_get_def prop_set_def update_conv')

lemma prop_get_set_other: "k' \<noteq> k \<Longrightarrow> prop_get (prop_set k v ps) k' = prop_get ps k'"
  by (simp add: prop_get_def prop_set_def update_conv')

lemmas world_ops = emit_def res_redirect_def call_next_def session_set_def locals_set_def
  new_effects_def currentUser_def

lemma clear_reference_idem: "clear_reference (clear_reference s) = clear_reference s"
proof -
  have "map_of (clear_reference s) ''userId'' = Some JUndefined"
    by (simp add: clear_reference_def prop_set_def update_conv')
  then have "prop_set ''userId'' JUndefined (clear_reference s) = clear_reference s"
    by (simp add: prop_set_def update_triv)
  then show ?thesis
    by (simp add: clear_reference_def prop_set_def)
qed

lemma cleared_reference_falsy: "\<not> truthy (prop_get (clear_reference s) ''userId'')"
  by (simp add: clear_reference_def prop_get_set_same prop_get_set_other)

section \<open>The four paths of the Enricher\<close>

lemma enricher_no_reference:
  "\<not> truthy (prop_get (session w) ''userId'') \<Longrightarrow>
   anexarUtilizadorAsViews db w = (Return, call_next (locals_set ''currentUser'' JNull w))"
  by (simp add: anexarUtilizadorAsViews_def and_then_def locals_set_def)

lemma enricher_found:
  "truthy (prop_get (session w) ''userId'') \<Longrightarrow>
   db (prop_get (session w) ''userId'') = Inr (Some u) \<Longrightarrow>
   anexarUtilizadorAsViews db w =
     (Normal, call_next (locals_set ''currentUser''
                (JObj [(''id'', JStr (toString (doc_id u))),
                       (''displayName'', displayName u),
                       (''email'', email u),
                       (''role'', role u)])
        (emit (FindById (prop_get (session w) ''userId''))
           (locals_set ''currentUser'' JNull w))))"
  by (simp add: anexarUtilizadorAsViews_def and_then_def try_catch_def try_block_def
      locals_set_def emit_def)

lemma enricher_not_found:
  "truthy (prop_get (session w) ''userId'') \<Longrightarrow>
   db (prop_get (session w) ''userId'') = Inr None \<Longrightarrow>
   anexarUtilizadorAsViews db w =
     (Return, call_next (session_set ''role'' JUndefined (session_set ''userId'' JUndefined
        (emit (FindById (prop_get (session w) ''userId''))
           (locals_set ''currentUser'' JNull w)))))"
  by (simp add: anexarUtilizadorAsViews_def and_then_def try_catch_def try_block_def
      locals_set_def emit_def)

lemma enricher_store_error:
  "truthy (prop_get (session w) ''userId'') \<Longrightarrow>
   db (prop_get (session w) ''userId'') = Inl e \<Longrightarrow>
   anexarUtilizadorAsViews db w =
     (Normal, call_next (locals_set ''currentUser'' JNull
        (emit (ConsoleError erro_ao_carregar e)
           (emit (FindById (prop_get (session w) ''userId''))
              (locals_set ''currentUser'' JNull w)))))"
  by (simp add: anexarUtilizadorAsViews_def and_then_def try_catch_def try_block_def
      catch_block_def locals_set_def emit_def)

text \<open>
  Each observable of a run, by path. The proofs split on the reference and then on what
  the store answers.
\<close>

lemma enricher_session_cases:
  "session (snd (anexarUtilizadorAsViews db w)) =
     (if truthy (prop_get (session w) ''userId'') \<and> db (prop_get (session w) ''userId'') = Inr None
      then clear_reference (session w) else session w)"
proof (cases "truthy (prop_get (session w) ''userId'')")
  case False
  then show ?thesis by (simp add: enricher_no_reference world_ops)
next
  case True
  show ?thesis
  proof (cases "db (prop_get (session w) ''userId'')")
    case (Inl e)
    with True show ?thesis by (simp add: enricher_store_error world_ops)
  next
    case (Inr r)
    with True show ?thesis
      by (cases r) (simp_all add: enricher_not_found enricher_found world_ops clear_reference_def)
  qed
qed

lemma enricher_output_cases:
  "currentUser (snd (anexarUtilizadorAsViews db w)) =
     (if truthy (prop_get (session w) ''userId'')
      then (case db (prop_get (session w) ''userId'') of
              Inr (Some u) \<Rightarrow>
                JObj [(''id'', JStr (toString (doc_id u))),
                      (''displayName'', displayName u),
                      (''email'', email u),
                      (''role'', role u)]
            | _ \<Rightarrow> JNull)
      else JNull)"
proof (cases "truthy (prop_get (session w) ''userId'')")
  case False
  then show ?thesis by (simp add: enricher_no_reference world_ops prop_get_set_same)
next
  case True
  show ?thesis
  proof (cases "db (prop_get (session w) ''userId'')")
    case (Inl e)
    with True show ?thesis by (simp add: enricher_store_error world_ops prop_get_set_same)
  next
    case (Inr r)
    with True show ?thesis
      by (cases r) (simp_all add: enricher_not_found enricher_found world_ops prop_get_set_same)
  qed
qed

lemma enricher_effects_cases:
  "new_effects w (snd (anexarUtilizadorAsViews db w)) =
     (if truthy (prop_get (session w) ''userId'')
      then (case db (prop_get (session w) ''userId'') of
              Inl e \<Rightarrow>
                [FindById (prop_get (session w) ''userId''), ConsoleError erro_ao_carregar e, Next]
            | Inr r \<Rightarrow> [FindById (prop_get (session w) ''userId''), Next])
      else [Next])"
proof (cases "truthy (prop_get (session w) ''userId'')")
  case False
  then show ?thesis by (simp add: enricher_no_reference world_ops)
next
  case True
  show ?thesis
  proof (cases "db (prop_get (session w) ''userId'')")
    case (Inl e)
    with True show ?thesis by (simp add: enricher_store_error world_ops)
  next
    case (Inr r)
    with True show ?thesis
      by (cases r) (simp_all add: enricher_not_found enricher_found world_ops)
  qed
qed

lemma enricher_completion_cases:
  "fst (anexarUtilizadorAsViews db w) = Normal \<or> fst (anexarUtilizadorAsViews db w) = Return"
proof (cases "truthy (prop_get (session w) ''userId'')")
  case False
  then show ?thesis by (simp add: enricher_no_reference)
next
  case True
  show ?thesis
  proof (cases "db (prop_get (session w) ''userId'')")
    case (Inl e)
    with True show ?thesis by (simp add: enricher_store_error)
  next
    case (Inr r)
    with True show ?thesis
      by (cases r) (simp_all add: enricher_not_found enricher_found)
  qed
qed

section \<open>Properties of the Authentication Gate\<close>

text \<open>
  C1. When the session carries no identity reference (the property \<^verbatim>\<open>userId\<close> is not
  there, so reading it gives \<^verbatim>\<open>undefined\<close>), the gate adds exactly one effect, the redirect
  to \<^verbatim>\<open>/login\<close>: the next stage is not invoked and no store lookup is made. On the empty
  session \<^verbatim>\<open>{}\<close> with nothing done before, the whole trace is that one redirect. The gate
  takes no store at all, so there is nothing it could query.
\<close>

theorem gate_redirects_without_reference:
  "(map_of (session w) ''userId'' = None \<longrightarrow>
      exigirAutenticacao w = (Return, res_redirect ''/login'' w) \<and>
      new_effects w (snd (exigirAutenticacao w)) = [Redirect ''/login''] \<and>
      Next \<notin> set (new_effects w (snd (exigirAutenticacao w))) \<and>
      (\<forall>ref. FindById ref \<notin> set (new_effects w (snd (exigirAutenticacao w))))) \<and>
   trace (snd (exigirAutenticacao \<lparr>session = [], locals = ls, trace = []\<rparr>)) =
     [Redirect ''/login'']"
  by (simp add: exigirAutenticacao_def prop_get_def world_ops)

theorem gate_redirects_without_reference_witness:
  "map_of (session \<lparr>session = [(''cookie'', JObj [])], locals = [],
                    trace = [FindById (JStr ''U1''), Next]\<rparr>) ''userId'' = None \<and>
   trace (snd (exigirAutenticacao \<lparr>session = [(''cookie'', JObj [])], locals = [],
                                  trace = [FindById (JStr ''U1''), Next]\<rparr>)) =
     [FindById (JStr ''U1''), Next, Redirect ''/login'']"
  using gate_redirects_without_reference
    [of "\<lparr>session = [(''cookie'', JObj [])], locals = [],
          trace = [FindById (JStr ''U1''), Next]\<rparr>"]
  by (simp add: world_ops)

text \<open>
  C2. When the session carries an identity reference (a truthy \<^verbatim>\<open>userId\<close>), the gate
  calls \<^verbatim>\<open>next\<close> and does nothing else: its one new effect is \<open>Next\<close>, so there is no
  store lookup. The gate has no store among its arguments, so the result is the same
  whether or not the referenced user still exists.
\<close>

theorem gate_passes_with_reference:
  "truthy (prop_get (session w) ''userId'') \<longrightarrow>
     exigirAutenticacao w = (Normal, call_next w) \<and>
     new_effects w (snd (exigirAutenticacao w)) = [Next] \<and>
     (\<forall>ref. FindById ref \<notin> set (new_effects w (snd (exigirAutenticacao w))))"
  by (simp add: exigirAutenticacao_def world_ops)

theorem gate_passes_with_reference_witness:
  "truthy (prop_get (session \<lparr>session = [(''userId'', JStr ''U9'')], locals = [], trace = []\<rparr>)
     ''userId'') \<and>
   trace (snd (exigirAutenticacao
     \<lparr>session = [(''userId'', JStr ''U9'')], locals = [], trace = []\<rparr>)) = [Next]"
  using gate_passes_with_reference
    [of "\<lparr>session = [(''userId'', JStr ''U9'')], locals = [], trace = []\<rparr>"]
  by (simp add: prop_get_def world_ops)

text \<open>
  C7. The gate only decides. On every request it leaves \<^verbatim>\<open>req.session\<close> and
  \<^verbatim>\<open>res.locals\<close> as they were, keeps the earlier trace, and adds exactly one effect, which
  is the redirect to \<^verbatim>\<open>/login\<close> or \<open>Next\<close>; on the negative path that one effect is the
  redirect. No effect of the gate is a store call or a write.
\<close>

theorem gate_frame:
  "session (snd (exigirAutenticacao w)) = session w \<and>
   locals (snd (exigirAutenticacao w)) = locals w \<and>
   take (length (trace w)) (trace (snd (exigirAutenticacao w))) = trace w \<and>
   (new_effects w (snd (exigirAutenticacao w)) = [Redirect ''/login''] \<or>
    new_effects w (snd (exigirAutenticacao w)) = [Next]) \<and>
   (\<not> truthy (prop_get (session w) ''userId'') \<longrightarrow>
      new_effects w (snd (exigirAutenticacao w)) = [Redirect ''/login''])"
  by (simp add: exigirAutenticacao_def world_ops)

theorem gate_frame_witness:
  "\<not> truthy (prop_get (session \<lparr>session = [(''role'', JStr ''admin'')],
       locals = [(''title'', JStr ''x'')], trace = [Next]\<rparr>) ''userId'') \<and>
   session (snd (exigirAutenticacao \<lparr>session = [(''role'', JStr ''admin'')],
       locals = [(''title'', JStr ''x'')], trace = [Next]\<rparr>)) = [(''role'', JStr ''admin'')] \<and>
   locals (snd (exigirAutenticacao \<lparr>session = [(''role'', JStr ''admin'')],
       locals = [(''title'', JStr ''x'')], trace = [Next]\<rparr>)) = [(''title'', JStr ''x'')] \<and>
   new_effects \<lparr>session = [(''role'', JStr ''admin'')],
       locals = [(''title'', JStr ''x'')], trace = [Next]\<rparr>
     (snd (exigirAutenticacao \<lparr>session = [(''role'', JStr ''admin'')],
       locals = [(''title'', JStr ''x'')], trace = [Next]\<rparr>)) = [Redirect ''/login'']"
  using gate_frame
    [of "\<lparr>session = [(''role'', JStr ''admin'')], locals = [(''title'', JStr ''x'')],
          trace = [Next]\<rparr>"]
  by (simp add: prop_get_def)

section \<open>Properties of the Enricher\<close>

text \<open>
  C3. When the session's reference is looked up and the store answers with a user
  record, \<^verbatim>\<open>res.locals.currentUser\<close> becomes the object with the four properties
  \<^verbatim>\<open>id\<close> (the string of \<^verbatim>\<open>_id\<close>), \<^verbatim>\<open>displayName\<close>, \<^verbatim>\<open>email\<close> and \<^verbatim>\<open>role\<close> of that record, in
  that order. Its own keys are those four, \<^verbatim>\<open>passwordHash\<close> is not among them, and the
  object is the same whatever the record's digest, timestamps and extra fields are.
\<close>

theorem enricher_projects_found_user:
  "truthy (prop_get (session w) ''userId'') \<and>
   db (prop_get (session w) ''userId'') = Inr (Some u) \<longrightarrow>
     currentUser (snd (anexarUtilizadorAsViews db w)) =
       JObj [(''id'', JStr (toString (doc_id u))),
             (''displayName'', displayName u),
             (''email'', email u),
             (''role'', role u)] \<and>
     own_keys (currentUser (snd (anexarUtilizadorAsViews db w))) =
       [''id'', ''displayName'', ''email'', ''role''] \<and>
     ''passwordHash'' \<notin> set (own_keys (currentUser (snd (anexarUtilizadorAsViews db w)))) \<and>
     (\<forall>p c d e.
        currentUser (snd (anexarUtilizadorAsViews
          (db (prop_get (session w) ''userId'' :=
                 Inr (Some (u\<lparr>passwordHash := p, createdAt := c, updatedAt := d,
                               extra := e\<rparr>)))) w)) =
        currentUser (snd (anexarUtilizadorAsViews db w)))"
  by (simp add: enricher_found world_ops prop_get_set_same)

theorem enricher_projects_found_user_witness:
  "truthy (prop_get (session \<lparr>session = [(''userId'', JStr ''U1'')], locals = [], trace = []\<rparr>)
     ''userId'') \<and>
   (\<lambda>r. if r = JStr ''U1''
        then Inr (Some \<lparr>doc_id = ObjectId ''U1'', email = JStr ''ana@x.com'',
                         displayName = JStr ''Ana'', passwordHash = JStr ''<secret>'',
                         role = JStr ''user'', createdAt = JNum 1, updatedAt = JNum 2,
                         extra = [(''__v'', JNum 0)]\<rparr>)
        else Inr None)
     (prop_get (session \<lparr>session = [(''userId'', JStr ''U1'')], locals = [], trace = []\<rparr>)
        ''userId'') =
     (Inr (Some \<lparr>doc_id = ObjectId ''U1'', email = JStr ''ana@x.com'',
                  displayName = JStr ''Ana'', passwordHash = JStr ''<secret>'',
                  role = JStr ''user'', createdAt = JNum 1, updatedAt = JNum 2,
                  extra = [(''__v'', JNum 0)]\<rparr>) :: js_error + user_doc option) \<and>
   currentUser (snd (anexarUtilizadorAsViews
      (\<lambda>r. if r = JStr ''U1''
           then Inr (Some \<lparr>doc_id = ObjectId ''U1'', email = JStr ''ana@x.com'',
                            displayName = JStr ''Ana'', passwordHash = JStr ''<secret>'',
                            role = JStr ''user'', createdAt = JNum 1, updatedAt = JNum 2,
                            extra = [(''__v'', JNum 0)]\<rparr>)
           else Inr None)
      \<lparr>session = [(''userId'', JStr ''U1'')], locals = [], trace = []\<rparr>)) =
   JObj [(''id'', JStr ''U1''), (''displayName'', JStr ''Ana''),
         (''email'', JStr ''ana@x.com''), (''role'', JStr ''user'')]"
  using enricher_projects_found_user
    [of "\<lparr>session = [(''userId'', JStr ''U1'')], locals = [], trace = []\<rparr>"
        "\<lambda>r. if r = JStr ''U1''
           then Inr (Some \<lparr>doc_id = ObjectId ''U1'', email = JStr ''ana@x.com'',
                            displayName = JStr ''Ana'', passwordHash = JStr ''<secret>'',
                            role = JStr ''user'', createdAt = JNum 1, updatedAt = JNum 2,
                            extra = [(''__v'', JNum 0)]\<rparr>)
           else Inr None"
        "\<lparr>doc_id = ObjectId ''U1'', email = JStr ''ana@x.com'',
          displayName = JStr ''Ana'', passwordHash = JStr ''<secret>'',
          role = JStr ''user'', createdAt = JNum 1, updatedAt = JNum 2,
          extra = [(''__v'', JNum 0)]\<rparr>"]
  by (simp add: prop_get_def)

text \<open>
  C4. When the session's reference is looked up and the store answers that there is no
  such user, the Enricher assigns \<^verbatim>\<open>undefined\<close> to \<^verbatim>\<open>userId\<close> and to \<^verbatim>\<open>role\<close> in the
  session, leaves \<^verbatim>\<open>currentUser\<close> at \<^verbatim>\<open>null\<close> and calls \<^verbatim>\<open>next\<close> after its one lookup. Any
  later run on a request with that session, against any store, takes the no-reference
  path: its only effect is \<open>Next\<close>, with no lookup, and \<^verbatim>\<open>currentUser\<close> is \<^verbatim>\<open>null\<close>.
\<close>

theorem enricher_heals_stale_reference:
  "truthy (prop_get (session w) ''userId'') \<and> db (prop_get (session w) ''userId'') = Inr None \<longrightarrow>
     prop_get (session (snd (anexarUtilizadorAsViews db w))) ''userId'' = JUndefined \<and>
     prop_get (session (snd (anexarUtilizadorAsViews db w))) ''role'' = JUndefined \<and>
     session (snd (anexarUtilizadorAsViews db w)) = clear_reference (session w) \<and>
     currentUser (snd (anexarUtilizadorAsViews db w)) = JNull \<and>
     new_effects w (snd (anexarUtilizadorAsViews db w)) =
       [FindById (prop_get (session w) ''userId''), Next] \<and>
     (\<forall>db' w'. session w' = session (snd (anexarUtilizadorAsViews db w)) \<longrightarrow>
        new_effects w' (snd (anexarUtilizadorAsViews db' w')) = [Next] \<and>
        currentUser (snd (anexarUtilizadorAsViews db' w')) = JNull)"
proof (intro impI, elim conjE)
  assume ref: "truthy (prop_get (session w) ''userId'')"
    and nf: "db (prop_get (session w) ''userId'') = Inr None"
  let ?w1 = "snd (anexarUtilizadorAsViews db w)"
  have s1: "session ?w1 = clear_reference (session w)"
    using ref nf by (simp add: enricher_session_cases)
  have a: "prop_get (session ?w1) ''userId'' = JUndefined"
    by (simp add: s1 clear_reference_def prop_get_set_same prop_get_set_other)
  have b: "prop_get (session ?w1) ''role'' = JUndefined"
    by (simp add: s1 clear_reference_def prop_get_set_same)
  have c: "currentUser ?w1 = JNull"
    using ref nf by (simp add: enricher_output_cases)
  have d: "new_effects w ?w1 = [FindById (prop_get (session w) ''userId''), Next]"
    using ref nf by (simp add: enricher_effects_cases)
  have e: "new_effects w' (snd (anexarUtilizadorAsViews db' w')) = [Next] \<and>
           currentUser (snd (anexarUtilizadorAsViews db' w')) = JNull"
    if "session w' = session ?w1" for db' w'
  proof -
    from that a have "\<not> truthy (prop_get (session w') ''userId'')" by simp
    then show ?thesis by (simp add: enricher_effects_cases enricher_output_cases)
  qed
  from s1 a b c d e
  show "prop_get (session ?w1) ''userId'' = JUndefined \<and>
     prop_get (session ?w1) ''role'' = JUndefined \<and>
     session ?w1 = clear_reference (session w) \<and>
     currentUser ?w1 = JNull \<and>
     new_effects w ?w1 = [FindById (prop_get (session w) ''userId''), Next] \<and>
     (\<forall>db' w'. session w' = session ?w1 \<longrightarrow>
        new_effects w' (snd (anexarUtilizadorAsViews db' w')) = [Next] \<and>
        currentUser (snd (anexarUtilizadorAsViews db' w')) = JNull)"
    by blast
qed

theorem enricher_heals_stale_reference_witness:
  "truthy (prop_get (session \<lparr>session = [(''userId'', JStr ''U9''), (''role'', JStr ''admin'')],
      locals = [], trace = []\<rparr>) ''userId'') \<and>
   session (snd (anexarUtilizadorAsViews (\<lambda>r. Inr None)
      \<lparr>session = [(''userId'', JStr ''U9''), (''role'', JStr ''admin'')],
        locals = [], trace = []\<rparr>)) =
     [(''userId'', JUndefined), (''role'', JUndefined)] \<and>
   new_effects
     \<lparr>session = [(''userId'', JUndefined), (''role'', JUndefined)], locals = [], trace = []\<rparr>
     (snd (anexarUtilizadorAsViews (\<lambda>r. Inl (JsError ''Error'' ''down''))
       \<lparr>session = [(''userId'', JUndefined), (''role'', JUndefined)],
         locals = [], trace = []\<rparr>)) = [Next]"
proof -
  let ?w = "\<lparr>session = [(''userId'', JStr ''U9''), (''role'', JStr ''admin'')],
             locals = [], trace = []\<rparr>"
  let ?w' = "\<lparr>session = [(''userId'', JUndefined), (''role'', JUndefined)],
              locals = [], trace = []\<rparr>"
  have h: "truthy (prop_get (session ?w) ''userId'') \<and>
           (\<lambda>r. Inr None :: js_error + user_doc option) (prop_get (session ?w) ''userId'') = Inr None"
    by (simp add: prop_get_def)
  note t = enricher_heals_stale_reference [of ?w "\<lambda>r. Inr None", rule_format, OF h]
  have s: "session (snd (anexarUtilizadorAsViews (\<lambda>r. Inr None) ?w)) = session ?w'"
    using t by (simp add: clear_reference_def prop_set_def)
  from t have "\<forall>db' w'. session w' = session (snd (anexarUtilizadorAsViews (\<lambda>r. Inr None) ?w)) \<longrightarrow>
        new_effects w' (snd (anexarUtilizadorAsViews db' w')) = [Next] \<and>
        currentUser (snd (anexarUtilizadorAsViews db' w')) = JNull" by blast
  then have "new_effects ?w' (snd (anexarUtilizadorAsViews (\<lambda>r. Inl (JsError ''Error'' ''down'')) ?w')) = [Next]"
    using s by metis
  with s h show ?thesis by simp
qed

text \<open>
  C5. The Enricher fails open and never ends the request. On every run, whatever the
  session and the store, the function does not complete by a throw, it calls \<^verbatim>\<open>next\<close>
  exactly once, as its last effect, and it never redirects. When the lookup throws, the
  error is logged, \<^verbatim>\<open>currentUser\<close> is \<^verbatim>\<open>null\<close> and \<^verbatim>\<open>next\<close> is still called.
\<close>

theorem enricher_fails_open:
  "(\<forall>e'. fst (anexarUtilizadorAsViews db w) \<noteq> Throw e') \<and>
   count_list (new_effects w (snd (anexarUtilizadorAsViews db w))) Next = 1 \<and>
   last (new_effects w (snd (anexarUtilizadorAsViews db w))) = Next \<and>
   (\<forall>url. Redirect url \<notin> set (new_effects w (snd (anexarUtilizadorAsViews db w)))) \<and>
   (truthy (prop_get (session w) ''userId'') \<and> db (prop_get (session w) ''userId'') = Inl e \<longrightarrow>
      fst (anexarUtilizadorAsViews db w) = Normal \<and>
      currentUser (snd (anexarUtilizadorAsViews db w)) = JNull \<and>
      new_effects w (snd (anexarUtilizadorAsViews db w)) =
        [FindById (prop_get (session w) ''userId''), ConsoleError erro_ao_carregar e, Next])"
proof -
  have a: "\<forall>e'. fst (anexarUtilizadorAsViews db w) \<noteq> Throw e'"
    using enricher_completion_cases [of db w] by auto
  have b: "count_list (new_effects w (snd (anexarUtilizadorAsViews db w))) Next = 1"
    by (simp add: enricher_effects_cases split: sum.split)
  have c: "last (new_effects w (snd (anexarUtilizadorAsViews db w))) = Next"
    by (simp add: enricher_effects_cases split: sum.split)
  have d: "\<forall>url. Redirect url \<notin> set (new_effects w (snd (anexarUtilizadorAsViews db w)))"
    by (simp add: enricher_effects_cases split: sum.split)
  have e: "truthy (prop_get (session w) ''userId'') \<and> db (prop_get (session w) ''userId'') = Inl e \<longrightarrow>
      fst (anexarUtilizadorAsViews db w) = Normal \<and>
      currentUser (snd (anexarUtilizadorAsViews db w)) = JNull \<and>
      new_effects w (snd (anexarUtilizadorAsViews db w)) =
        [FindById (prop_get (session w) ''userId''), ConsoleError erro_ao_carregar e, Next]"
  proof (intro impI, elim conjE)
    assume ref: "truthy (prop_get (session w) ''userId'')"
      and err: "db (prop_get (session w) ''userId'') = Inl e"
    have "fst (anexarUtilizadorAsViews db w) = Normal"
      using ref err by (simp add: enricher_store_error)
    moreover have "currentUser (snd (anexarUtilizadorAsViews db w)) = JNull"
      using ref err by (simp add: enricher_output_cases)
    moreover have "new_effects w (snd (anexarUtilizadorAsViews db w)) =
        [FindById (prop_get (session w) ''userId''), ConsoleError erro_ao_carregar e, Next]"
      using ref err by (simp add: enricher_effects_cases)
    ultimately show "fst (anexarUtilizadorAsViews db w) = Normal \<and>
      currentUser (snd (anexarUtilizadorAsViews db w)) = JNull \<and>
      new_effects w (snd (anexarUtilizadorAsViews db w)) =
        [FindById (prop_get (session w) ''userId''), ConsoleError erro_ao_carregar e, Next]"
      by simp
  qed
  from a b c d e show ?thesis by blast
qed

theorem enricher_fails_open_witness:
  "truthy (prop_get (session \<lparr>session = [(''userId'', JStr ''U1'')], locals = [], trace = []\<rparr>)
     ''userId'') \<and>
   new_effects \<lparr>session = [(''userId'', JStr ''U1'')], locals = [], trace = []\<rparr>
     (snd (anexarUtilizadorAsViews (\<lambda>r. Inl (JsError ''MongoNetworkError'' ''timeout''))
        \<lparr>session = [(''userId'', JStr ''U1'')], locals = [], trace = []\<rparr>)) =
     [FindById (JStr ''U1''),
      ConsoleError erro_ao_carregar (JsError ''MongoNetworkError'' ''timeout''), Next] \<and>
   currentUser (snd (anexarUtilizadorAsViews (\<lambda>r. Inl (JsError ''MongoNetworkError'' ''timeout''))
        \<lparr>session = [(''userId'', JStr ''U1'')], locals = [], trace = []\<rparr>)) = JNull"
  using enricher_fails_open
    [of "\<lambda>r. Inl (JsError ''MongoNetworkError'' ''timeout'')"
        "\<lparr>session = [(''userId'', JStr ''U1'')], locals = [], trace = []\<rparr>"
        "JsError ''MongoNetworkError'' ''timeout''"]
  by (simp add: prop_get_def)

text \<open>
  C6. Idempotence, the store being the same for both runs. A second run, on a request
  whose session is the one the first run was given or the one it left behind, sets the same
  \<^verbatim>\<open>currentUser\<close> as the first. When the first run had no reference to look up, or its
  lookup answered that there is no such user, that output is \<^verbatim>\<open>null\<close> and a second run on
  the session left behind again gives \<^verbatim>\<open>null\<close>, adds the single effect \<open>Next\<close> (no lookup)
  and leaves the session as it is. Clearing the reference twice is the same as clearing it
  once. (A lookup that threw has answered nothing: the reference stays and the next run
  looks it up again.)
\<close>

theorem enricher_idempotent:
  "(\<forall>w2. session w2 = session w \<or> session w2 = session (snd (anexarUtilizadorAsViews db w)) \<longrightarrow>
      currentUser (snd (anexarUtilizadorAsViews db w2)) =
      currentUser (snd (anexarUtilizadorAsViews db w))) \<and>
   (\<not> truthy (prop_get (session w) ''userId'') \<or> db (prop_get (session w) ''userId'') = Inr None \<longrightarrow>
      currentUser (snd (anexarUtilizadorAsViews db w)) = JNull \<and>
      (\<forall>w2. session w2 = session (snd (anexarUtilizadorAsViews db w)) \<longrightarrow>
         currentUser (snd (anexarUtilizadorAsViews db w2)) = JNull \<and>
         new_effects w2 (snd (anexarUtilizadorAsViews db w2)) = [Next] \<and>
         session (snd (anexarUtilizadorAsViews db w2)) = session w2)) \<and>
   clear_reference (clear_reference s) = clear_reference s"
proof -
  let ?w1 = "snd (anexarUtilizadorAsViews db w)"
  have same: "currentUser (snd (anexarUtilizadorAsViews db w2)) = currentUser ?w1"
    if "session w2 = session w" for w2
    using that by (simp add: enricher_output_cases)
  have healed: "currentUser (snd (anexarUtilizadorAsViews db w2)) = JNull \<and>
         new_effects w2 (snd (anexarUtilizadorAsViews db w2)) = [Next] \<and>
         session (snd (anexarUtilizadorAsViews db w2)) = session w2"
    if "\<not> truthy (prop_get (session w2) ''userId'')" for w2
    using that by (simp add: enricher_output_cases enricher_effects_cases enricher_session_cases)
  have after: "\<not> truthy (prop_get (session w2) ''userId'')"
    if "session w2 = session ?w1"
      and "\<not> truthy (prop_get (session w) ''userId'') \<or>
           db (prop_get (session w) ''userId'') = Inr None"
    for w2
    using that by (auto simp add: enricher_session_cases cleared_reference_falsy)
  have a: "currentUser (snd (anexarUtilizadorAsViews db w2)) = currentUser ?w1"
    if h: "session w2 = session w \<or> session w2 = session ?w1" for w2
  proof (cases "truthy (prop_get (session w) ''userId'') \<and>
                db (prop_get (session w) ''userId'') = Inr None")
    case True
    show ?thesis
    proof (cases "session w2 = session w")
      case True
      then show ?thesis by (rule same)
    next
      case False
      with h have "session w2 = session ?w1" by simp
      with True have "\<not> truthy (prop_get (session w2) ''userId'')" by (simp add: after)
      then have "currentUser (snd (anexarUtilizadorAsViews db w2)) = JNull" by (simp add: healed)
      moreover from True have "currentUser ?w1 = JNull" by (simp add: enricher_output_cases)
      ultimately show ?thesis by simp
    qed
  next
    case False
    then have "session ?w1 = session w" by (auto simp add: enricher_session_cases)
    with h have "session w2 = session w" by auto
    then show ?thesis by (rule same)
  qed
  have b: "currentUser ?w1 = JNull"
    if "\<not> truthy (prop_get (session w) ''userId'') \<or>
        db (prop_get (session w) ''userId'') = Inr None"
    using that by (auto simp add: enricher_output_cases)
  from a b healed after clear_reference_idem [of s] show ?thesis by blast
qed

theorem enricher_idempotent_witness:
  "(\<lambda>r. Inr None :: js_error + user_doc option)
     (prop_get (session \<lparr>session = [(''userId'', JStr ''U9'')], locals = [], trace = []\<rparr>)
        ''userId'') = Inr None \<and>
   session (snd (anexarUtilizadorAsViews (\<lambda>r. Inr None)
      \<lparr>session = [(''userId'', JStr ''U9'')], locals = [], trace = []\<rparr>)) =
     [(''userId'', JUndefined), (''role'', JUndefined)] \<and>
   new_effects
     \<lparr>session = [(''userId'', JUndefined), (''role'', JUndefined)], locals = [], trace = []\<rparr>
     (snd (anexarUtilizadorAsViews (\<lambda>r. Inr None)
       \<lparr>session = [(''userId'', JUndefined), (''role'', JUndefined)],
         locals = [], trace = []\<rparr>)) = [Next] \<and>
   clear_reference (clear_reference [(''userId'', JStr ''U9'')]) =
     [(''userId'', JUndefined), (''role'', JUndefined)]"
proof -
  let ?w = "\<lparr>session = [(''userId'', JStr ''U9'')], locals = [], trace = []\<rparr>"
  let ?w' = "\<lparr>session = [(''userId'', JUndefined), (''role'', JUndefined)],
              locals = [], trace = []\<rparr>"
  let ?db = "\<lambda>r. Inr None :: js_error + user_doc option"
  note t = enricher_idempotent [of ?w ?db "[(''userId'', JStr ''U9'')]"]
  have s: "session (snd (anexarUtilizadorAsViews ?db ?w)) = session ?w'"
    by (simp add: enricher_session_cases prop_get_def clear_reference_def prop_set_def)
  have h: "\<not> truthy (prop_get (session ?w) ''userId'') \<or> ?db (prop_get (session ?w) ''userId'') = Inr None"
    by simp
  from t h have "\<forall>w2. session w2 = session (snd (anexarUtilizadorAsViews ?db ?w)) \<longrightarrow>
         currentUser (snd (anexarUtilizadorAsViews ?db w2)) = JNull \<and>
         new_effects w2 (snd (anexarUtilizadorAsViews ?db w2)) = [Next] \<and>
         session (snd (anexarUtilizadorAsViews ?db w2)) = session w2" by blast
  then have n: "new_effects ?w' (snd (anexarUtilizadorAsViews ?db ?w')) = [Next]"
    using s by metis
  from t have "clear_reference (clear_reference [(''userId'', JStr ''U9'')]) =
      clear_reference [(''userId'', JStr ''U9'')]" by blast
  then have c: "clear_reference (clear_reference [(''userId'', JStr ''U9'')]) =
      [(''userId'', JUndefined), (''role'', JUndefined)]"
    by (simp add: clear_reference_def prop_set_def)
  from s n c show ?thesis by simp
qed

text \<open>
  C9. When the lookup throws, the session is left exactly as it was: \<^verbatim>\<open>userId\<close> and
  \<^verbatim>\<open>role\<close> read as before, and the reference is still truthy, so the user is not logged
  out by a store outage. The session changes only on the not-found path.
\<close>

theorem enricher_error_keeps_session:
  "truthy (prop_get (session w) ''userId'') \<and> db (prop_get (session w) ''userId'') = Inl e \<longrightarrow>
     session (snd (anexarUtilizadorAsViews db w)) = session w \<and>
     prop_get (session (snd (anexarUtilizadorAsViews db w))) ''userId'' =
       prop_get (session w) ''userId'' \<and>
     prop_get (session (snd (anexarUtilizadorAsViews db w))) ''role'' =
       prop_get (session w) ''role'' \<and>
     truthy (prop_get (session (snd (anexarUtilizadorAsViews db w))) ''userId'')"
  by (simp add: enricher_session_cases)

theorem enricher_error_keeps_session_witness:
  "truthy (prop_get (session \<lparr>session = [(''userId'', JStr ''U1''), (''role'', JStr ''admin'')],
      locals = [], trace = []\<rparr>) ''userId'') \<and>
   session (snd (anexarUtilizadorAsViews (\<lambda>r. Inl (JsError ''MongoNetworkError'' ''timeout''))
        \<lparr>session = [(''userId'', JStr ''U1''), (''role'', JStr ''admin'')],
          locals = [], trace = []\<rparr>)) =
     [(''userId'', JStr ''U1''), (''role'', JStr ''admin'')]"
  using enricher_error_keeps_session
    [of "\<lparr>session = [(''userId'', JStr ''U1''), (''role'', JStr ''admin'')],
          locals = [], trace = []\<rparr>"
        "\<lambda>r. Inl (JsError ''MongoNetworkError'' ''timeout'')"
        "JsError ''MongoNetworkError'' ''timeout''"]
  by (simp add: prop_get_def)

text \<open>
  C10. Both middlewares branch on the truthiness of \<^verbatim>\<open>req.session.userId\<close>. The empty
  string, \<^verbatim>\<open>0\<close>, \<^verbatim>\<open>null\<close>, \<^verbatim>\<open>undefined\<close> and \<^verbatim>\<open>false\<close> are falsy. Whenever the reference reads
  as a falsy value, the gate does what it does for an absent one, the single redirect to
  \<^verbatim>\<open>/login\<close>, and the Enricher only calls \<^verbatim>\<open>next\<close>, with no lookup and \<^verbatim>\<open>currentUser\<close> at
  \<^verbatim>\<open>null\<close>. The gate calls \<^verbatim>\<open>next\<close> only for a truthy reference.
\<close>

theorem falsy_reference_is_anonymous:
  "(\<forall>v \<in> {JStr [], JNum 0, JNull, JUndefined, JBool False}. \<not> truthy v) \<and>
   (\<not> truthy (prop_get (session w) ''userId'') \<longrightarrow>
      exigirAutenticacao w = (Return, res_redirect ''/login'' w) \<and>
      new_effects w (snd (exigirAutenticacao w)) = [Redirect ''/login''] \<and>
      new_effects w (snd (anexarUtilizadorAsViews db w)) = [Next] \<and>
      currentUser (snd (anexarUtilizadorAsViews db w)) = JNull) \<and>
   (Next \<in> set (new_effects w (snd (exigirAutenticacao w))) \<longrightarrow>
      truthy (prop_get (session w) ''userId''))"
proof -
  have a: "\<forall>v \<in> {JStr [], JNum 0, JNull, JUndefined, JBool False}. \<not> truthy v"
    by simp
  have b: "\<not> truthy (prop_get (session w) ''userId'') \<longrightarrow>
      exigirAutenticacao w = (Return, res_redirect ''/login'' w) \<and>
      new_effects w (snd (exigirAutenticacao w)) = [Redirect ''/login'']"
    by (simp add: exigirAutenticacao_def world_ops)
  have c: "\<not> truthy (prop_get (session w) ''userId'') \<longrightarrow>
      new_effects w (snd (anexarUtilizadorAsViews db w)) = [Next] \<and>
      currentUser (snd (anexarUtilizadorAsViews db w)) = JNull"
    by (simp add: enricher_effects_cases enricher_output_cases)
  have d: "Next \<in> set (new_effects w (snd (exigirAutenticacao w))) \<longrightarrow>
      truthy (prop_get (session w) ''userId'')"
    by (simp add: exigirAutenticacao_def world_ops)
  from a b c d show ?thesis by blast
qed

theorem falsy_reference_is_anonymous_witness:
  "\<not> truthy (prop_get (session \<lparr>session = [(''userId'', JStr [])], locals = [], trace = []\<rparr>)
      ''userId'') \<and>
   new_effects \<lparr>session = [(''userId'', JStr [])], locals = [], trace = []\<rparr>
     (snd (exigirAutenticacao \<lparr>session = [(''userId'', JStr [])], locals = [], trace = []\<rparr>)) =
       [Redirect ''/login''] \<and>
   new_effects \<lparr>session = [(''userId'', JStr [])], locals = [], trace = []\<rparr>
     (snd (anexarUtilizadorAsViews (\<lambda>r. Inl (JsError ''Error'' ''unreachable''))
        \<lparr>session = [(''userId'', JStr [])], locals = [], trace = []\<rparr>)) = [Next]"
  using falsy_reference_is_anonymous
    [of "\<lparr>session = [(''userId'', JStr [])], locals = [], trace = []\<rparr>"
        "\<lambda>r. Inl (JsError ''Error'' ''unreachable'')"]
  by (simp add: prop_get_def world_ops)

section \<open>Startup with an unconfigured store\<close>

text \<open>
  C8. When the connection string is not set in the environment, the connection helper
  throws its error with nothing done before (no connection is attempted), in both
  versions of the helper, each for the variable it reads. The startup routine catches the
  error of the helper it calls, logs it and exits with code 1; it never reaches
  \<^verbatim>\<open>app.listen\<close>, so no request is ever served.
\<close>

theorem unconfigured_store_stops_startup:
  "(env ''MONGODB_URL'' = None \<longrightarrow>
      connectToDataBase env t = (Throw (JsError ''Error'' variavel_nao_existe), t) \<and>
      startServer app env t =
        (Normal, t @ [ConsoleErrorSys ''Erro Critico ao arrancar o servidor''
                        (JsError ''Error'' variavel_nao_existe),
                      ProcessExit 1]) \<and>
      (\<forall>port. AppListen port \<notin> set (drop (length t) (snd (startServer app env t))))) \<and>
   (env ''MONGODB_URI'' = None \<longrightarrow>
      connectToDatabase mongoose_connect env t =
        (Throw (JsError ''Error'' variavel_nao_existe), t))"
  by (simp add: connectToDataBase_def connectToDatabase_def startServer_def env_get_def
      try_catch_def and_then_def)

theorem unconfigured_store_stops_startup_witness:
  "[''PORT'' \<mapsto> ''8080''] ''MONGODB_URL'' = None \<and>
   [''PORT'' \<mapsto> ''8080''] ''MONGODB_URI'' = None \<and>
   snd (startServer ExpressApp [''PORT'' \<mapsto> ''8080''] []) =
     [ConsoleErrorSys ''Erro Critico ao arrancar o servidor''
        (JsError ''Error'' variavel_nao_existe),
      ProcessExit 1] \<and>
   connectToDatabase (\<lambda>uri dbName. None) [''PORT'' \<mapsto> ''8080''] [] =
     (Throw (JsError ''Error'' variavel_nao_existe), [])"
  using unconfigured_store_stops_startup
    [of "[''PORT'' \<mapsto> ''8080'']" "[]" ExpressApp "\<lambda>uri dbName. None"]
  by simp

end
